theory Spec2Isabelle
  imports Main
begin

section \<open>Strings, values and responses\<close>

text \<open>
  A JavaScript string is a sequence of UTF-16 code units; a code unit is modelled as a
  natural number. Text that comes from a request or from the store (titles, slugs, file
  names, header values, roles, currencies) is a \<open>jsstring\<close>. Fixed program text that only
  labels a response (messages, error names, field names) is a HOL string.
  \<open>js\<close> turns a HOL string literal into the code units of the same ASCII text.
\<close>

type_synonym jsstring = "nat list"

definition js :: "string \<Rightarrow> jsstring" where
  "js s = map of_char s"

text \<open>\<open>String.prototype.startsWith\<close>, \<open>includes\<close> and \<open>split\<close> with a one-unit separator.\<close>

definition startsWith :: "jsstring \<Rightarrow> jsstring \<Rightarrow> bool" where
  "startsWith s p = (take (length p) s = p)"

fun str_includes :: "jsstring \<Rightarrow> jsstring \<Rightarrow> bool" where
  "str_includes [] sub = (sub = [])"
| "str_includes (c # cs) sub = (startsWith (c # cs) sub \<or> str_includes cs sub)"

fun split :: "nat \<Rightarrow> jsstring \<Rightarrow> jsstring list" where
  "split sep [] = [[]]"
| "split sep (c # cs) =
     (if c = sep then [] # split sep cs
      else (case split sep cs of [] \<Rightarrow> [[c]] | p # ps \<Rightarrow> (c # p) # ps))"

text \<open>
  The JSON envelope of a response: a success carries the HTTP status and the payload, a
  failure the HTTP status, the message and the optional \<open>keyValue\<close> member.
\<close>

datatype 'a response = Success nat 'a | Failure nat string "(string \<times> jsstring) option"

fun status :: "'a response \<Rightarrow> nat" where
  "status (Success st _) = st"
| "status (Failure st _ _) = st"

fun keyValue_of :: "'a response \<Rightarrow> (string \<times> jsstring) option" where
  "keyValue_of (Success _ _) = None"
| "keyValue_of (Failure _ _ kv) = kv"

text \<open>
  An error thrown by the store: the driver's numeric \<open>code\<close>, the error's \<open>name\<close> and, for
  a duplicate key, the \<open>keyValue\<close> pair of the violated unique index.
\<close>

datatype store_error =
  StoreError (code: "nat option") (name: string) (keyValue: "(string \<times> jsstring) option")

text \<open>
  Object identifiers of the store, and the reading of an identifier from text as the
  driver does it for a string of 24 hexadecimal digits of either case. The handlers below
  take the reading as a parameter, since drivers differ on what else they accept.
\<close>

type_synonym oid = nat




section \<open>Slug generation (models/Blog.js, models/job.js)\<close>

text \<open>
  Both models derive the slug with the same chain
  \<^verbatim>\<open>title.toLowerCase().replace(/[^a-z0-9\s-]/g, '').replace(/\s+/g, '-')
       .replace(/-+/g, '-').replace(/^-+|-+$/g, '')\<close>.
  \<open>toLowerCase\<close> is the Unicode case mapping of the language; it is a parameter of the
  model. \<open>ascii_toLowerCase\<close> is that mapping on titles made of ASCII code units.
\<close>

type_synonym lowercase = "jsstring \<Rightarrow> jsstring"

definition ascii_toLowerCase :: lowercase where
  "ascii_toLowerCase s = map (\<lambda>c. if 65 \<le> c \<and> c \<le> 90 then c + 32 else c) s"

definition hyphen :: nat where
  "hyphen = 45"

definition is_hyphen :: "nat \<Rightarrow> bool" where
  "is_hyphen c = (c = hyphen)"

text \<open>The character class \<open>[a-z0-9]\<close>.\<close>

definition is_lower_alnum :: "nat \<Rightarrow> bool" where
  "is_lower_alnum c = ((97 \<le> c \<and> c \<le> 122) \<or> (48 \<le> c \<and> c \<le> 57))"

text \<open>
  The class \<open>\s\<close>: the white space and line terminator code units of ECMAScript
  (TAB, LF, VT, FF, CR, SP, NBSP, U+1680, U+2000 to U+200A, U+2028, U+2029, U+202F,
  U+205F, U+3000, U+FEFF).
\<close>

definition is_space :: "nat \<Rightarrow> bool" where
  "is_space c =
     (c \<in> {9, 10, 11, 12, 13, 32, 160, 5760, 8232, 8233, 8239, 8287, 12288, 65279}
      \<or> (8192 \<le> c \<and> c \<le> 8202))"

text \<open>The class \<open>[a-z0-9\s-]\<close>, whose complement the first replacement deletes.\<close>

definition in_slug_class :: "nat \<Rightarrow> bool" where
  "in_slug_class c = (is_lower_alnum c \<or> is_space c \<or> is_hyphen c)"

definition strip_outside_class :: "jsstring \<Rightarrow> jsstring" where
  "strip_outside_class s = filter in_slug_class s"

text \<open>
  \<open>s.replace(/C+/g, r)\<close> for a character class \<open>C\<close>: every maximal run of code units of
  the class is replaced by \<open>r\<close>; matching resumes after the run.
\<close>

function replace_runs :: "(nat \<Rightarrow> bool) \<Rightarrow> jsstring \<Rightarrow> jsstring \<Rightarrow> jsstring" where
  "replace_runs p r [] = []"
| "replace_runs p r (c # cs) =
     (if p c then r @ replace_runs p r (dropWhile p cs) else c # replace_runs p r cs)"
  by pat_completeness auto
termination
  by (relation "measure (\<lambda>(p, r, s). length s)")
     (auto simp: length_dropWhile_le less_Suc_eq_le)

text \<open>\<open>s.replace(/^-+|-+$/g, '')\<close>: the hyphen runs at the two ends are deleted.\<close>

definition trim_hyphens :: "jsstring \<Rightarrow> jsstring" where
  "trim_hyphens s = rev (dropWhile is_hyphen (rev (dropWhile is_hyphen s)))"

definition normalize_slug :: "jsstring \<Rightarrow> jsstring" where
  "normalize_slug s =
     trim_hyphens
       (replace_runs is_hyphen [hyphen]
          (replace_runs is_space [hyphen] (strip_outside_class s)))"

definition slugify :: "lowercase \<Rightarrow> jsstring \<Rightarrow> jsstring" where
  "slugify toLowerCase title = normalize_slug (toLowerCase title)"

text \<open>Hyphens occur singly: no two neighbouring code units are both hyphens.\<close>

abbreviation single_hyphens :: "jsstring \<Rightarrow> bool" where
  "single_hyphens s \<equiv> successively (\<lambda>a b. \<not> (a = hyphen \<and> b = hyphen)) s"


section \<open>Numbers and their text (language built-ins used by models/job.js)\<close>

text \<open>Decimal digits of a natural number, and \<open>Number.prototype.toString\<close> on integers.\<close>

fun digits :: "nat \<Rightarrow> jsstring" where
  "digits n = (if n < 10 then [48 + n] else digits (n div 10) @ [48 + n mod 10])"

declare digits.simps [simp del]

definition int_toString :: "int \<Rightarrow> jsstring" where
  "int_toString i = (if i < 0 then hyphen # digits (nat (- i)) else digits (nat i))"

text \<open>
  A Number is modelled when it is \<open>NaN\<close> or an integer of magnitude below \<open>2^53\<close>, the
  range in which every integer is a double and prints as its decimal digits.
  A stored value is \<open>undefined\<close>, \<open>null\<close>, a Number or a string.
\<close>

datatype jsnumber = NaN | Fin int

datatype jsvalue = JUndefined | JNull | JNum jsnumber | JStr jsstring

fun truthy :: "jsvalue \<Rightarrow> bool" where
  "truthy JUndefined = False"
| "truthy JNull = False"
| "truthy (JNum NaN) = False"
| "truthy (JNum (Fin n)) = (n \<noteq> 0)"
| "truthy (JStr s) = (s \<noteq> [])"

definition is_digit :: "nat \<Rightarrow> bool" where
  "is_digit c = (48 \<le> c \<and> c \<le> 57)"

definition digits_value :: "jsstring \<Rightarrow> nat" where
  "digits_value s = foldl (\<lambda>acc c. 10 * acc + (c - 48)) 0 s"

definition trim_space :: "jsstring \<Rightarrow> jsstring" where
  "trim_space s = rev (dropWhile is_space (rev (dropWhile is_space s)))"

text \<open>
  Every numeric string literal of the language is written with decimal digits, signs, the
  dot, the exponent and radix letters, hexadecimal digits and the letters of \<open>Infinity\<close>.
\<close>

definition numeric_literal_char :: "nat \<Rightarrow> bool" where
  "numeric_literal_char c = (is_digit c \<or> c \<in> set (js ''+-.abcdefABCDEFxXoOIinty''))"

text \<open>
  \<open>Number(s)\<close> for a string \<open>s\<close>. The white space at both ends is dropped; the empty text
  is 0; a text of decimal digits is its value; a text with a code unit that no numeric
  literal contains is \<open>NaN\<close>. The result is \<open>None\<close> for the remaining texts (signed,
  fractional, exponent, radix and \<open>Infinity\<close> literals and malformed mixtures of their
  characters, or digit strings of \<open>2^53\<close> and more), whose conversion is not modelled.
\<close>

definition StringToNumber :: "jsstring \<Rightarrow> jsnumber option" where
  "StringToNumber s =
     (let t = trim_space s in
      if t = [] then Some (Fin 0)
      else if list_all is_digit t then
        (if digits_value t < 2 ^ 53 then Some (Fin (int (digits_value t))) else None)
      else if list_ex (\<lambda>c. \<not> numeric_literal_char c) t then Some NaN
      else None)"

fun Number_of :: "jsvalue \<Rightarrow> jsnumber option" where
  "Number_of JUndefined = Some NaN"
| "Number_of JNull = Some (Fin 0)"
| "Number_of (JNum n) = Some n"
| "Number_of (JStr s) = StringToNumber s"

text \<open>
  The quotient \<open>n / d\<close> of two positive integers with \<open>d \<le> n < 2^53\<close>, as the double the
  division returns: the pair \<open>(m, k)\<close> stands for \<open>m / 2^k\<close>, the multiple of \<open>2^(-k)\<close>
  nearest to the exact quotient, ties to the even \<open>m\<close>, where \<open>k\<close> is chosen so that the
  significand \<open>m\<close> has 53 bits.
\<close>

fun bitlen :: "nat \<Rightarrow> nat" where
  "bitlen n = (if n = 0 then 0 else Suc (bitlen (n div 2)))"

declare bitlen.simps [simp del]

definition double_div :: "nat \<Rightarrow> nat \<Rightarrow> nat \<times> nat" where
  "double_div n d =
     (let k = 53 - bitlen (n div d);
          q = (n * 2 ^ k) div d;
          r = (n * 2 ^ k) mod d;
          m = (if 2 * r < d then q else if d < 2 * r then q + 1
               else if even q then q else q + 1)
      in (m, k))"

text \<open>
  \<open>x.toFixed(f)\<close> for the double \<open>x = m / 2^k\<close>: the integer \<open>N\<close> with \<open>N / 10^f\<close> nearest to
  \<open>x\<close>, the larger one on a tie, printed with \<open>f\<close> digits after the dot.
\<close>

definition toFixed :: "nat \<times> nat \<Rightarrow> nat \<Rightarrow> jsstring" where
  "toFixed x f =
     (let N = (2 * fst x * 10 ^ f + 2 ^ snd x) div (2 * 2 ^ snd x);
          frac = digits (N mod 10 ^ f)
      in if f = 0 then digits N
         else digits (N div 10 ^ f) @ js ''.'' @ replicate (f - length frac) 48 @ frac)"


section \<open>Job postings (models/job.js, routes/job.js)\<close>

record salary =
  salary_min :: jsvalue
  salary_max :: jsvalue
  currency :: jsstring
  period :: jsstring

text \<open>
  \<open>applicationDeadline\<close> and the clock are milliseconds since the epoch, the values that
  \<open>new Date() > this.applicationDeadline\<close> compares.
\<close>

record job =
  title :: jsstring
  slug :: "jsstring option"
  salary :: "salary option"
  isActive :: bool
  applicationDeadline :: "int option"

text \<open>The \<open>pre('save')\<close> hook; \<open>now\<close> is the value of \<open>Date.now()\<close>.\<close>

definition job_slug :: "lowercase \<Rightarrow> jsstring \<Rightarrow> int \<Rightarrow> jsstring" where
  "job_slug toLowerCase ttl now =
     (let baseSlug = slugify toLowerCase ttl;
          baseSlug = (if baseSlug = [] then js ''job'' else baseSlug)
      in baseSlug @ [hyphen] @ int_toString now)"

definition job_pre_save :: "lowercase \<Rightarrow> int \<Rightarrow> bool \<Rightarrow> job \<Rightarrow> job" where
  "job_pre_save toLowerCase now title_modified j =
     (if slug j = None \<or> slug j = Some [] \<or> title_modified
      then j\<lparr>slug := Some (job_slug toLowerCase (title j) now)\<rparr>
      else j)"

text \<open>
  \<open>Job.create\<close>: a new document has its title modified, so the hook always runs; the
  unique index on \<open>slug\<close> refuses a document whose slug is already stored.
\<close>

definition Job_create :: "lowercase \<Rightarrow> int \<Rightarrow> job list \<Rightarrow> job \<Rightarrow> store_error + job \<times> job list" where
  "Job_create toLowerCase now db jobData =
     (let doc = job_pre_save toLowerCase now True jobData in
      if slug doc \<in> set (map slug db)
      then Inl (StoreError (Some 11000) ''MongoServerError''
                  (Some (''slug'', case slug doc of None \<Rightarrow> [] | Some s \<Rightarrow> s)))
      else Inr (doc, db @ [doc]))"

text \<open>The handler of \<open>POST /api/job\<close> after request validation, and its \<open>catch\<close> block.\<close>

definition job_create_catch :: "store_error \<Rightarrow> job response" where
  "job_create_catch error =
     (if code error = Some 11000
      then Failure 400 ''A job with this title already exists'' None
      else Failure 500 ''Failed to create job'' None)"

definition job_post :: "lowercase \<Rightarrow> int \<Rightarrow> job list \<Rightarrow> job \<Rightarrow> job response \<times> job list" where
  "job_post toLowerCase now db jobData =
     (case Job_create toLowerCase now db jobData of
        Inr (doc, db') \<Rightarrow> (Success 201 doc, db')
      | Inl error \<Rightarrow> (job_create_catch error, db))"

text \<open>
  The virtual \<open>salaryRange\<close> with its inner function \<open>formatSalary\<close>. Both return a
  text; the result is \<open>None\<close> only for an amount whose conversion to a Number is outside
  the modelled ones.
\<close>

definition formatSalary :: "jsstring \<Rightarrow> jsvalue \<Rightarrow> jsstring option" where
  "formatSalary per amount =
     (case Number_of amount of
        None \<Rightarrow> None
      | Some NaN \<Rightarrow> Some (js ''Invalid'')
      | Some (Fin numAmount) \<Rightarrow>
          Some
           (if per = js ''yearly'' then
              (if numAmount \<ge> 100000 then toFixed (double_div (nat numAmount) 100000) 1 @ js ''L''
               else if numAmount \<ge> 1000 then toFixed (double_div (nat numAmount) 1000) 0 @ js ''K''
               else int_toString numAmount)
            else if per = js ''monthly'' then
              (if numAmount \<ge> 100000 then toFixed (double_div (nat numAmount) 100000) 1 @ js ''L''
               else if numAmount \<ge> 1000 then toFixed (double_div (nat numAmount) 1000) 0 @ js ''K''
               else int_toString numAmount)
            else if per = js ''hourly'' then int_toString numAmount @ js ''/hr''
            else int_toString numAmount))"

definition salaryRange :: "job \<Rightarrow> jsstring option" where
  "salaryRange j =
     (case salary j of
        None \<Rightarrow> Some (js ''Not specified'')
      | Some s \<Rightarrow>
          if \<not> truthy (salary_min s) \<and> \<not> truthy (salary_max s) then Some (js ''Not specified'')
          else if truthy (salary_min s) \<and> truthy (salary_max s) then
            (case (formatSalary (period s) (salary_min s), formatSalary (period s) (salary_max s)) of
               (Some minFormatted, Some maxFormatted) \<Rightarrow>
                 Some (minFormatted @ js '' - '' @ maxFormatted @ js '' '' @ currency s
                       @ js ''/'' @ period s)
             | _ \<Rightarrow> None)
          else if truthy (salary_min s) then
            (case formatSalary (period s) (salary_min s) of
               Some minFormatted \<Rightarrow>
                 Some (minFormatted @ js ''+ '' @ currency s @ js ''/'' @ period s)
             | None \<Rightarrow> None)
          else if truthy (salary_max s) then
            (case formatSalary (period s) (salary_max s) of
               Some maxFormatted \<Rightarrow>
                 Some (js ''Up to '' @ maxFormatted @ js '' '' @ currency s @ js ''/'' @ period s)
             | None \<Rightarrow> None)
          else Some (js ''Not specified''))"

text \<open>The virtual \<open>isOpen\<close>; \<open>now\<close> is the time of \<open>new Date()\<close>.\<close>

definition isOpen :: "int \<Rightarrow> job \<Rightarrow> bool" where
  "isOpen now j =
     (if \<not> isActive j then False
      else if (case applicationDeadline j of None \<Rightarrow> False | Some deadline \<Rightarrow> now > deadline)
      then False
      else True)"


section \<open>Blogs and their comments (models/Blog.js, routes/blog.js)\<close>

record comment =
  comment_id :: oid
  comment_user :: "oid option"
  comment_text :: jsstring

record blog =
  blog_id :: oid
  blog_title :: jsstring
  blog_slug :: "jsstring option"
  author :: "oid option"
  comments :: "comment list"

record user =
  user_id :: oid
  role :: jsstring

text \<open>The \<open>pre('validate')\<close> hook.\<close>

definition blog_pre_validate :: "lowercase \<Rightarrow> bool \<Rightarrow> blog \<Rightarrow> blog" where
  "blog_pre_validate toLowerCase title_modified b =
     (if blog_title b \<noteq> [] \<and> (title_modified \<or> blog_slug b = None \<or> blog_slug b = Some [])
      then b\<lparr>blog_slug := Some (slugify toLowerCase (blog_title b))\<rparr>
      else b)"

text \<open>
  \<open>Blog.create\<close>: the hook, the \<open>required\<close> validator of \<open>slug\<close> (an absent or empty slug is
  a validation error), then the insert under the unique index on \<open>slug\<close>.
\<close>

definition Blog_create :: "lowercase \<Rightarrow> blog list \<Rightarrow> blog \<Rightarrow> store_error + blog \<times> blog list" where
  "Blog_create toLowerCase db blogData =
     (let doc = blog_pre_validate toLowerCase True blogData in
      case blog_slug doc of
        None \<Rightarrow> Inl (StoreError None ''ValidationError'' None)
      | Some s \<Rightarrow>
          if s = [] then Inl (StoreError None ''ValidationError'' None)
          else if Some s \<in> set (map blog_slug db)
          then Inl (StoreError (Some 11000) ''MongoServerError'' (Some (''slug'', s)))
          else Inr (doc, db @ [doc]))"

text \<open>The handler of \<open>POST /api/blog\<close> after request validation, and its \<open>catch\<close> block.\<close>

definition blog_create_catch :: "store_error \<Rightarrow> blog response" where
  "blog_create_catch error =
     (if code error = Some 11000 \<or> name error = ''MongoServerError''
      then Failure 409 ''A blog with this title already exists. Please use a unique title.''
             (keyValue error)
      else Failure 500 ''Server error'' None)"

definition blog_post :: "lowercase \<Rightarrow> blog list \<Rightarrow> blog \<Rightarrow> blog response \<times> blog list" where
  "blog_post toLowerCase db blogData =
     (case Blog_create toLowerCase db blogData of
        Inr (doc, db') \<Rightarrow> (Success 201 doc, db')
      | Inl error \<Rightarrow> (blog_create_catch error, db))"







section \<open>Authentication middleware (middleware/auth.js)\<close>

text \<open>
  A call of a collaborator (the token verifier, the user lookup) returns a value or
  throws.
\<close>

datatype 'a attempt = Throws | Returns 'a

text \<open>What a middleware does with the request: answer it, or pass it on with \<open>req.user\<close>.\<close>

datatype auth_outcome = Respond nat string | Next "user option"

text \<open>
  The token both middlewares read: the second piece of the \<open>authorization\<close> header split at
  spaces, when the header is present and starts with \<open>Bearer\<close>.
\<close>

definition bearer_token :: "jsstring option \<Rightarrow> jsstring option" where
  "bearer_token authorization =
     (case authorization of
        None \<Rightarrow> None
      | Some h \<Rightarrow>
          if h \<noteq> [] \<and> startsWith h (js ''Bearer'')
          then (case split 32 h of _ # t # _ \<Rightarrow> Some t | _ \<Rightarrow> None)
          else None)"

definition protect ::
  "(jsstring \<Rightarrow> 'd attempt) \<Rightarrow> ('d \<Rightarrow> user option attempt) \<Rightarrow> jsstring option \<Rightarrow> auth_outcome" where
  "protect verify findById authorization =
     (case bearer_token authorization of
        None \<Rightarrow> Respond 401 ''Not authorized to access this route''
      | Some token \<Rightarrow>
          if token = [] then Respond 401 ''Not authorized to access this route''
          else (case verify token of
                  Throws \<Rightarrow> Respond 401 ''Not authorized to access this route''
                | Returns decoded \<Rightarrow>
                    (case findById decoded of
                       Throws \<Rightarrow> Respond 401 ''Not authorized to access this route''
                     | Returns u \<Rightarrow> Next u)))"

definition optionalAuth ::
  "(jsstring \<Rightarrow> 'd attempt) \<Rightarrow> ('d \<Rightarrow> user option attempt) \<Rightarrow> jsstring option \<Rightarrow> auth_outcome" where
  "optionalAuth verify findById authorization =
     (case bearer_token authorization of
        None \<Rightarrow> Next None
      | Some token \<Rightarrow>
          if token = [] then Next None
          else (case verify token of
                  Throws \<Rightarrow> Next None
                | Returns decoded \<Rightarrow>
                    (case findById decoded of
                       Throws \<Rightarrow> Next None
                     | Returns u \<Rightarrow> Next u)))"

text \<open>
  The credential is missing when no token can be read from the header, and invalid when
  the verifier throws on the token (bad signature, expired, malformed).
\<close>

definition credential_missing :: "jsstring option \<Rightarrow> bool" where
  "credential_missing authorization =
     (bearer_token authorization = None \<or> bearer_token authorization = Some [])"

definition credential_invalid :: "(jsstring \<Rightarrow> 'd attempt) \<Rightarrow> jsstring option \<Rightarrow> bool" where
  "credential_invalid verify authorization =
     (case bearer_token authorization of None \<Rightarrow> False | Some token \<Rightarrow> verify token = Throws)"


section \<open>Deleting an uploaded file (routes/media.js)\<close>

text \<open>The class \<open>[A-Za-z0-9_.\- ]\<close> of the file name check.\<close>

definition allowed_filename_char :: "nat \<Rightarrow> bool" where
  "allowed_filename_char c =
     ((65 \<le> c \<and> c \<le> 90) \<or> (97 \<le> c \<and> c \<le> 122) \<or> (48 \<le> c \<and> c \<le> 57)
      \<or> c = 95 \<or> c = 46 \<or> c = 45 \<or> c = 32)"

text \<open>\<open>path.basename\<close> on a POSIX path: the text after the last slash.\<close>

definition basename :: "jsstring \<Rightarrow> jsstring" where
  "basename p = last (split 47 p)"

datatype errno = ENOENT | OtherErrno

text \<open>
  The handler of \<open>DELETE /api/media/:filename\<close>, which runs after \<open>protect\<close> and
  \<open>authorize('admin')\<close>. \<open>unlink\<close> is the file system call, given the file name inside the
  uploads directory. The third component lists the calls made to the file system.
\<close>

definition media_delete ::
  "('fs \<Rightarrow> jsstring \<Rightarrow> errno + 'fs) \<Rightarrow> 'fs \<Rightarrow> jsstring \<Rightarrow> string response \<times> 'fs \<times> jsstring list" where
  "media_delete unlink fs raw =
     (if str_includes raw (js ''/'') \<or> str_includes raw (js [CHR 0x5C]) \<or> str_includes raw (js ''..'')
      then (Failure 400 ''Invalid filename'' None, fs, [])
      else if \<not> (raw \<noteq> [] \<and> list_all allowed_filename_char raw)
      then (Failure 400 ''Invalid filename'' None, fs, [])
      else
        (let filename = basename raw in
         case unlink fs filename of
           Inr fs' \<Rightarrow> (Success 200 ''File deleted'', fs', [filename])
         | Inl ENOENT \<Rightarrow> (Failure 404 ''File not found'' None, fs, [filename])
         | Inl OtherErrno \<Rightarrow> (Failure 500 ''Failed to delete media'' None, fs, [filename])))"

text \<open>A directory as the list of its file names, with \<open>unlink\<close> on it.\<close>

definition unlink_in_dir :: "jsstring list \<Rightarrow> jsstring \<Rightarrow> errno + jsstring list" where
  "unlink_in_dir dir filename =
     (if filename \<in> set dir then Inr (removeAll filename dir) else Inl ENOENT)"


section \<open>Slug generation: shape and idempotence\<close>

lemma set_replace_runs: "set (replace_runs p r s) \<subseteq> set r \<union> {c \<in> set s. \<not> p c}"
proof (induction p r s rule: replace_runs.induct)
  case (1 p r)
  show ?case by simp
next
  case (2 p r c cs)
  show ?case
  proof (cases "p c")
    case True
    have "set (dropWhile p cs) \<subseteq> set cs" by (rule set_dropWhileD[THEN subsetI]) 
    with 2(1)[OF True] True show ?thesis by auto
  next
    case False
    with 2(2)[OF False] show ?thesis by auto
  qed
qed

lemma replace_runs_after_run:
  "replace_runs p r (dropWhile p cs) = [] \<or> \<not> p (hd (replace_runs p r (dropWhile p cs)))"
proof (cases "dropWhile p cs")
  case Nil
  then have "replace_runs p r (dropWhile p cs) = []" by (simp only: replace_runs.simps)
  then show ?thesis by blast
next
  case (Cons d ds)
  then have "\<not> p d" using hd_dropWhile[of p cs] by auto
  with Cons show ?thesis by simp
qed

lemma single_hyphens_replace_runs: "single_hyphens (replace_runs is_hyphen [hyphen] s)"
proof (induction is_hyphen "[hyphen]" s rule: replace_runs.induct)
  case 1
  show ?case by simp
next
  case (2 c cs)
  show ?case
  proof (cases "is_hyphen c")
    case True
    from replace_runs_after_run[of is_hyphen "[hyphen]" cs] 2(1)[OF True] True
    show ?thesis by (auto simp: successively_Cons is_hyphen_def)
  next
    case False
    with 2(2)[OF False] show ?thesis by (auto simp: successively_Cons is_hyphen_def)
  qed
qed

lemma single_hyphens_dropWhile: "single_hyphens s \<Longrightarrow> single_hyphens (dropWhile p s)"
  by (induction s) (auto simp: successively_Cons)

lemma single_hyphens_rev: "single_hyphens (rev s) = single_hyphens s"
proof -
  have "(\<lambda>a b. \<not> (b = hyphen \<and> a = hyphen)) = (\<lambda>a b. \<not> (a = hyphen \<and> b = hyphen))"
    by (intro ext) blast
  then show ?thesis by (simp only: successively_rev)
qed

lemma single_hyphens_trim: "single_hyphens s \<Longrightarrow> single_hyphens (trim_hyphens s)"
  unfolding trim_hyphens_def
  by (simp only: single_hyphens_rev single_hyphens_dropWhile)

lemma set_trim_hyphens: "set (trim_hyphens s) \<subseteq> set s"
proof
  fix x assume "x \<in> set (trim_hyphens s)"
  then have "x \<in> set (dropWhile is_hyphen (rev (dropWhile is_hyphen s)))"
    by (simp add: trim_hyphens_def)
  then have "x \<in> set (rev (dropWhile is_hyphen s))" by (rule set_dropWhileD)
  then have "x \<in> set (dropWhile is_hyphen s)" by simp
  then show "x \<in> set s" by (rule set_dropWhileD)
qed

lemma trim_hyphens_ends:
  assumes ne: "trim_hyphens s \<noteq> []"
  shows "hd (trim_hyphens s) \<noteq> hyphen \<and> last (trim_hyphens s) \<noteq> hyphen"
proof -
  let ?a = "dropWhile is_hyphen s"
  let ?b = "dropWhile is_hyphen (rev ?a)"
  from ne have b: "?b \<noteq> []" by (simp add: trim_hyphens_def)
  have a: "?a \<noteq> []"
  proof
    assume "?a = []"
    then have "?b = []" by (simp only: rev.simps dropWhile.simps)
    with b show False by blast
  qed
  have hb: "\<not> is_hyphen (hd ?b)" using b hd_dropWhile by blast
  have ha: "\<not> is_hyphen (hd ?a)" using a hd_dropWhile by blast
  have "last (trim_hyphens s) = hd ?b" using b by (simp add: trim_hyphens_def last_rev)
  moreover have "hd (trim_hyphens s) = last ?b" using b by (simp add: trim_hyphens_def hd_rev)
  moreover have "last ?b = last (rev ?a)"
    using b by (metis last_appendR takeWhile_dropWhile_id)
  moreover have "last (rev ?a) = hd ?a" using a by (simp add: last_rev)
  ultimately show ?thesis using ha hb by (simp add: is_hyphen_def)
qed

lemma normalize_slug_chars:
  assumes "c \<in> set (normalize_slug s)"
  shows "is_lower_alnum c \<or> c = hyphen"
proof -
  from assms
  have "c \<in> set (replace_runs is_hyphen [hyphen]
                    (replace_runs is_space [hyphen] (strip_outside_class s)))"
    unfolding normalize_slug_def using set_trim_hyphens by blast
  then have "c = hyphen \<or> c \<in> set (replace_runs is_space [hyphen] (strip_outside_class s))"
    using set_replace_runs[of is_hyphen "[hyphen]"] by auto
  then have "c = hyphen \<or> (c \<in> set (strip_outside_class s) \<and> \<not> is_space c)"
    using set_replace_runs[of is_space "[hyphen]"] by auto
  then show ?thesis
    by (auto simp: strip_outside_class_def in_slug_class_def is_hyphen_def)
qed

lemma normalize_slug_single_hyphens: "single_hyphens (normalize_slug s)"
  unfolding normalize_slug_def
  by (rule single_hyphens_trim) (rule single_hyphens_replace_runs)

lemma normalize_slug_ends:
  "normalize_slug s \<noteq> [] \<Longrightarrow> hd (normalize_slug s) \<noteq> hyphen \<and> last (normalize_slug s) \<noteq> hyphen"
  unfolding normalize_slug_def by (rule trim_hyphens_ends)

text \<open>A text that already has the shape of a slug is a fixed point of every step.\<close>

lemma replace_runs_none: "\<forall>c \<in> set s. \<not> p c \<Longrightarrow> replace_runs p r s = s"
  by (induction s) auto

lemma replace_runs_single_hyphens:
  "single_hyphens s \<Longrightarrow> replace_runs is_hyphen [hyphen] s = s"
proof (induction s)
  case Nil
  show ?case by simp
next
  case (Cons c cs)
  from Cons.prems have tl: "single_hyphens cs" by (auto simp: successively_Cons)
  show ?case
  proof (cases "is_hyphen c")
    case False
    with Cons.IH[OF tl] show ?thesis by simp
  next
    case True
    with Cons.prems have "cs = [] \<or> \<not> is_hyphen (hd cs)"
      by (auto simp: successively_Cons is_hyphen_def)
    then have "dropWhile is_hyphen cs = cs" by (cases cs) auto
    moreover from True have "c = hyphen" by (simp add: is_hyphen_def)
    ultimately show ?thesis using True Cons.IH[OF tl] by simp
  qed
qed

lemma trim_hyphens_none:
  assumes "s \<noteq> [] \<longrightarrow> hd s \<noteq> hyphen \<and> last s \<noteq> hyphen"
  shows "trim_hyphens s = s"
proof (cases s)
  case Nil
  then show ?thesis by (simp add: trim_hyphens_def)
next
  case (Cons c cs)
  with assms have h: "\<not> is_hyphen (hd s)" and l: "\<not> is_hyphen (last s)" and ne: "s \<noteq> []"
    by (auto simp: is_hyphen_def)
  from h ne have 1: "dropWhile is_hyphen s = s" by (cases s) auto
  from l ne have "\<not> is_hyphen (hd (rev s))" by (simp add: hd_rev)
  with ne have 2: "dropWhile is_hyphen (rev s) = rev s" by (cases "rev s") auto
  show ?thesis by (simp add: trim_hyphens_def 1 2)
qed

lemma normalize_slug_fixed:
  assumes chars: "\<forall>c \<in> set s. is_lower_alnum c \<or> c = hyphen"
    and single: "single_hyphens s"
    and ends: "s \<noteq> [] \<longrightarrow> hd s \<noteq> hyphen \<and> last s \<noteq> hyphen"
  shows "normalize_slug s = s"
proof -
  from chars have "strip_outside_class s = s"
    by (auto simp: strip_outside_class_def in_slug_class_def is_hyphen_def filter_id_conv)
  moreover from chars have "\<forall>c \<in> set s. \<not> is_space c"
    by (auto simp: is_lower_alnum_def is_space_def hyphen_def)
  then have "replace_runs is_space [hyphen] s = s" by (rule replace_runs_none)
  moreover from single have "replace_runs is_hyphen [hyphen] s = s"
    by (rule replace_runs_single_hyphens)
  moreover from ends have "trim_hyphens s = s" by (rule trim_hyphens_none)
  ultimately show ?thesis by (simp add: normalize_slug_def)
qed

lemma normalize_slug_idem: "normalize_slug (normalize_slug s) = normalize_slug s"
  using normalize_slug_chars normalize_slug_single_hyphens normalize_slug_ends
  by (intro normalize_slug_fixed) blast+

lemma ascii_toLowerCase_fixed:
  "\<forall>c \<in> set s. is_lower_alnum c \<or> c = hyphen \<Longrightarrow> ascii_toLowerCase s = s"
  unfolding ascii_toLowerCase_def
  by (intro map_idI) (auto simp: is_lower_alnum_def hyphen_def)

lemmas slug_eval =
  slugify_def normalize_slug_def trim_hyphens_def strip_outside_class_def in_slug_class_def
  is_lower_alnum_def is_space_def is_hyphen_def hyphen_def ascii_toLowerCase_def js_def

lemma slugify_example:
  "slugify ascii_toLowerCase (js ''  Hello,   World -- 2024!  '') = js ''hello-world-2024''"
  by (simp add: slug_eval)

text \<open>
  C4. For every title, and whatever the case mapping returns, the slug consists of
  code units of \<open>[a-z0-9]\<close> and hyphens only, no two hyphens are neighbours, and a
  non-empty slug neither starts nor ends with a hyphen.
\<close>

theorem slug_shape:
  "(\<forall>c \<in> set (slugify toLowerCase ttl). is_lower_alnum c \<or> c = hyphen) \<and>
   (\<forall>i. Suc i < length (slugify toLowerCase ttl) \<longrightarrow>
        \<not> (slugify toLowerCase ttl ! i = hyphen \<and> slugify toLowerCase ttl ! Suc i = hyphen)) \<and>
   (slugify toLowerCase ttl \<noteq> [] \<longrightarrow>
        hd (slugify toLowerCase ttl) \<noteq> hyphen \<and> last (slugify toLowerCase ttl) \<noteq> hyphen)"
proof -
  let ?s = "slugify toLowerCase ttl"
  have 1: "\<forall>c \<in> set ?s. is_lower_alnum c \<or> c = hyphen"
    unfolding slugify_def using normalize_slug_chars by blast
  have "single_hyphens ?s"
    unfolding slugify_def by (rule normalize_slug_single_hyphens)
  then have 2: "\<forall>i. Suc i < length ?s \<longrightarrow> \<not> (?s ! i = hyphen \<and> ?s ! Suc i = hyphen)"
    by (simp only: successively_conv_nth)
  have 3: "?s \<noteq> [] \<longrightarrow> hd ?s \<noteq> hyphen \<and> last ?s \<noteq> hyphen"
    unfolding slugify_def using normalize_slug_ends by blast
  from 1 2 3 show ?thesis by blast
qed

theorem slug_shape_witness:
  "slugify ascii_toLowerCase (js ''  Hello,   World -- 2024!  '') = js ''hello-world-2024'' \<and>
   list_all (\<lambda>c. is_lower_alnum c \<or> c = hyphen) (js ''hello-world-2024'') \<and>
   Suc 5 < length (js ''hello-world-2024'') \<and>
   \<not> (js ''hello-world-2024'' ! 5 = hyphen \<and> js ''hello-world-2024'' ! Suc 5 = hyphen) \<and>
   js ''hello-world-2024'' \<noteq> [] \<and>
   hd (js ''hello-world-2024'') \<noteq> hyphen \<and> last (js ''hello-world-2024'') \<noteq> hyphen"
proof -
  have len: "Suc 5 < length (js ''hello-world-2024'')" and ne: "js ''hello-world-2024'' \<noteq> []"
    by (simp_all add: js_def)
  from slug_shape[of ascii_toLowerCase "js ''  Hello,   World -- 2024!  ''"] len ne
  show ?thesis unfolding slugify_example list_all_iff by blast
qed

text \<open>
  C5. The slug that the hook stores is a function of the title alone, so two documents
  with one title get one slug; and deriving a slug from a slug returns it unchanged, given
  that the case mapping leaves texts of lower-case letters, digits and hyphens as they
  are.
\<close>

theorem slug_idempotent:
  assumes "\<forall>s. (\<forall>c \<in> set s. is_lower_alnum c \<or> c = hyphen) \<longrightarrow> toLowerCase s = s"
  shows "(blog_title b1 = blog_title b2 \<and> blog_title b1 \<noteq> [] \<longrightarrow>
            blog_slug (blog_pre_validate toLowerCase True b1)
              = Some (slugify toLowerCase (blog_title b1)) \<and>
            blog_slug (blog_pre_validate toLowerCase True b2)
              = blog_slug (blog_pre_validate toLowerCase True b1)) \<and>
         slugify toLowerCase (slugify toLowerCase ttl) = slugify toLowerCase ttl"
proof
  show "blog_title b1 = blog_title b2 \<and> blog_title b1 \<noteq> [] \<longrightarrow>
            blog_slug (blog_pre_validate toLowerCase True b1)
              = Some (slugify toLowerCase (blog_title b1)) \<and>
            blog_slug (blog_pre_validate toLowerCase True b2)
              = blog_slug (blog_pre_validate toLowerCase True b1)"
    by (simp add: blog_pre_validate_def)
  have "\<forall>c \<in> set (normalize_slug (toLowerCase ttl)). is_lower_alnum c \<or> c = hyphen"
    using normalize_slug_chars by blast
  with assms have "toLowerCase (normalize_slug (toLowerCase ttl)) = normalize_slug (toLowerCase ttl)"
    by blast
  then show "slugify toLowerCase (slugify toLowerCase ttl) = slugify toLowerCase ttl"
    by (simp add: slugify_def normalize_slug_idem)
qed

theorem slug_idempotent_witness:
  "blog_slug (blog_pre_validate ascii_toLowerCase True
      \<lparr>blog_id = 1, blog_title = js ''  Hello,   World -- 2024!  '', blog_slug = None,
        author = Some 7, comments = []\<rparr>) = Some (js ''hello-world-2024'') \<and>
   blog_slug (blog_pre_validate ascii_toLowerCase True
      \<lparr>blog_id = 2, blog_title = js ''  Hello,   World -- 2024!  '', blog_slug = Some (js ''old''),
        author = Some 8, comments = []\<rparr>) = Some (js ''hello-world-2024'') \<and>
   slugify ascii_toLowerCase (js ''  Hello,   World -- 2024!  '') = js ''hello-world-2024'' \<and>
   slugify ascii_toLowerCase (js ''hello-world-2024'') = js ''hello-world-2024''"
proof -
  have h: "\<forall>s. (\<forall>c \<in> set s. is_lower_alnum c \<or> c = hyphen) \<longrightarrow> ascii_toLowerCase s = s"
    using ascii_toLowerCase_fixed by blast
  have ne: "js ''  Hello,   World -- 2024!  '' \<noteq> []" by (simp add: js_def)
  from slug_idempotent[OF h,
      of "\<lparr>blog_id = 1, blog_title = js ''  Hello,   World -- 2024!  '', blog_slug = None,
           author = Some 7, comments = []\<rparr>"
         "\<lparr>blog_id = 2, blog_title = js ''  Hello,   World -- 2024!  '',
           blog_slug = Some (js ''old''), author = Some 8, comments = []\<rparr>"
         "js ''  Hello,   World -- 2024!  ''"] ne
  show ?thesis by (simp add: slugify_example)
qed


section \<open>Job postings: open state, salary text, slugs\<close>

text \<open>
  C6. A posting is open exactly when it is active and has no deadline or a deadline that
  the clock has not passed; with a deadline in the past it is closed whatever the flag.
\<close>

theorem isOpen_iff:
  "(isOpen now j \<longleftrightarrow>
      isActive j \<and>
      (applicationDeadline j = None \<or> (\<exists>deadline. applicationDeadline j = Some deadline \<and> now \<le> deadline)))
   \<and> (\<forall>deadline. applicationDeadline j = Some deadline \<and> deadline < now \<longrightarrow> \<not> isOpen now j)"
  by (cases "applicationDeadline j") (auto simp: isOpen_def)

theorem isOpen_iff_witness:
  "isOpen 1000 \<lparr>title = js ''Designer'', slug = None, salary = None, isActive = True,
                 applicationDeadline = None\<rparr>
   \<and> isOpen 1000 \<lparr>title = js ''Designer'', slug = None, salary = None, isActive = True,
                   applicationDeadline = Some 1000\<rparr>
   \<and> \<not> isOpen 1000 \<lparr>title = js ''Designer'', slug = None, salary = None, isActive = True,
                     applicationDeadline = Some 999\<rparr>
   \<and> \<not> isOpen 1000 \<lparr>title = js ''Designer'', slug = None, salary = None, isActive = False,
                     applicationDeadline = None\<rparr>"
  using
    isOpen_iff[of 1000 "\<lparr>title = js ''Designer'', slug = None, salary = None, isActive = True,
                 applicationDeadline = None\<rparr>"]
    isOpen_iff[of 1000 "\<lparr>title = js ''Designer'', slug = None, salary = None, isActive = True,
                 applicationDeadline = Some 1000\<rparr>"]
    isOpen_iff[of 1000 "\<lparr>title = js ''Designer'', slug = None, salary = None, isActive = True,
                 applicationDeadline = Some 999\<rparr>"]
    isOpen_iff[of 1000 "\<lparr>title = js ''Designer'', slug = None, salary = None, isActive = False,
                 applicationDeadline = None\<rparr>"]
  by simp

lemma formatSalary_NaN: "Number_of amount = Some NaN \<Longrightarrow> formatSalary per amount = Some (js ''Invalid'')"
  by (simp add: formatSalary_def)

lemma Number_of_100k: "Number_of (JStr (js ''100k'')) = Some NaN"
  by (simp add: js_def StringToNumber_def trim_space_def is_space_def is_digit_def
      numeric_literal_char_def)

lemma formatSalary_1L: "formatSalary (js ''yearly'') (JNum (Fin 100000)) = Some (js ''1.0L'')"
  by (simp add: formatSalary_def js_def toFixed_def double_div_def bitlen.simps digits.simps)

lemma formatSalary_5K: "formatSalary (js ''monthly'') (JNum (Fin 5000)) = Some (js ''5K'')"
  by (simp add: formatSalary_def js_def toFixed_def double_div_def bitlen.simps digits.simps)

lemma formatSalary_150hr: "formatSalary (js ''hourly'') (JNum (Fin 150)) = Some (js ''150/hr'')"
  by (simp add: formatSalary_def js_def int_toString_def digits.simps)

text \<open>
  C3. The amount 100000 per year is written \<open>1.0L\<close>, 5000 per month \<open>5K\<close>, 150 per hour
  \<open>150/hr\<close>; the text \<open>100k\<close>, and every amount whose conversion to a Number is \<open>NaN\<close>, is
  written \<open>Invalid\<close>, a value and no error, whatever the period.
\<close>

theorem formatSalary_examples:
  "formatSalary (js ''yearly'') (JNum (Fin 100000)) = Some (js ''1.0L'') \<and>
   formatSalary (js ''monthly'') (JNum (Fin 5000)) = Some (js ''5K'') \<and>
   formatSalary (js ''hourly'') (JNum (Fin 150)) = Some (js ''150/hr'') \<and>
   formatSalary per (JStr (js ''100k'')) = Some (js ''Invalid'') \<and>
   (Number_of amount = Some NaN \<longrightarrow> formatSalary per amount = Some (js ''Invalid''))"
  using formatSalary_1L formatSalary_5K formatSalary_150hr
    formatSalary_NaN[OF Number_of_100k] formatSalary_NaN
  by blast

theorem formatSalary_examples_witness:
  "Number_of (JStr (js ''ten thousand'')) = Some NaN \<and>
   formatSalary (js ''yearly'') (JStr (js ''ten thousand'')) = Some (js ''Invalid'') \<and>
   Number_of JUndefined = Some NaN \<and>
   formatSalary (js ''monthly'') JUndefined = Some (js ''Invalid'')"
proof -
  have 1: "Number_of (JStr (js ''ten thousand'')) = Some NaN"
    by (simp add: js_def StringToNumber_def trim_space_def is_space_def is_digit_def
        numeric_literal_char_def)
  have 2: "Number_of JUndefined = Some NaN" by simp
  from formatSalary_examples[of "js ''yearly''" "JStr (js ''ten thousand'')"]
       formatSalary_examples[of "js ''monthly''" JUndefined] 1 2
  show ?thesis by blast
qed

text \<open>
  C10. A stored bound of 0 counts as absent: with minimum 0 and a positive maximum the
  text is \<open>Up to <max> <currency>/<period>\<close>, and with both bounds 0 it is
  \<open>Not specified\<close>.
\<close>

theorem salaryRange_zero_bound:
  "(salary j = Some s \<and> salary_min s = JNum (Fin 0) \<and> salary_max s = JNum (Fin n) \<and> 0 < n \<longrightarrow>
      (\<exists>maxFormatted.
          formatSalary (period s) (salary_max s) = Some maxFormatted \<and>
          salaryRange j =
            Some (js ''Up to '' @ maxFormatted @ js '' '' @ currency s @ js ''/'' @ period s)))
   \<and> (salary j = Some s \<and> salary_min s = JNum (Fin 0) \<and> salary_max s = JNum (Fin 0) \<longrightarrow>
      salaryRange j = Some (js ''Not specified''))"
proof (intro conjI impI)
  assume a: "salary j = Some s \<and> salary_min s = JNum (Fin 0) \<and> salary_max s = JNum (Fin n) \<and> 0 < n"
  then obtain f where f: "formatSalary (period s) (salary_max s) = Some f"
    by (auto simp: formatSalary_def)
  with a have "salaryRange j = Some (js ''Up to '' @ f @ js '' '' @ currency s @ js ''/'' @ period s)"
    by (simp add: salaryRange_def)
  with f show "\<exists>maxFormatted.
          formatSalary (period s) (salary_max s) = Some maxFormatted \<and>
          salaryRange j =
            Some (js ''Up to '' @ maxFormatted @ js '' '' @ currency s @ js ''/'' @ period s)"
    by blast
next
  assume "salary j = Some s \<and> salary_min s = JNum (Fin 0) \<and> salary_max s = JNum (Fin 0)"
  then show "salaryRange j = Some (js ''Not specified'')"
    by (simp add: salaryRange_def)
qed

lemma formatSalary_15K: "formatSalary (js ''monthly'') (JNum (Fin 15000)) = Some (js ''15K'')"
  by (simp add: formatSalary_def js_def toFixed_def double_div_def bitlen.simps digits.simps)

theorem salaryRange_zero_bound_witness:
  "salaryRange \<lparr>title = js ''Designer'', slug = None,
       salary = Some \<lparr>salary_min = JNum (Fin 0), salary_max = JNum (Fin 15000),
                      currency = js ''INR'', period = js ''monthly''\<rparr>,
       isActive = True, applicationDeadline = None\<rparr> = Some (js ''Up to 15K INR/monthly'')
   \<and> salaryRange \<lparr>title = js ''Designer'', slug = None,
       salary = Some \<lparr>salary_min = JNum (Fin 0), salary_max = JNum (Fin 0),
                      currency = js ''INR'', period = js ''monthly''\<rparr>,
       isActive = True, applicationDeadline = None\<rparr> = Some (js ''Not specified'')"
  using
    salaryRange_zero_bound[of
      "\<lparr>title = js ''Designer'', slug = None,
       salary = Some \<lparr>salary_min = JNum (Fin 0), salary_max = JNum (Fin 15000),
                      currency = js ''INR'', period = js ''monthly''\<rparr>,
       isActive = True, applicationDeadline = None\<rparr>"
      "\<lparr>salary_min = JNum (Fin 0), salary_max = JNum (Fin 15000),
                      currency = js ''INR'', period = js ''monthly''\<rparr>" 15000]
    salaryRange_zero_bound[of
      "\<lparr>title = js ''Designer'', slug = None,
       salary = Some \<lparr>salary_min = JNum (Fin 0), salary_max = JNum (Fin 0),
                      currency = js ''INR'', period = js ''monthly''\<rparr>,
       isActive = True, applicationDeadline = None\<rparr>"
      "\<lparr>salary_min = JNum (Fin 0), salary_max = JNum (Fin 0),
                      currency = js ''INR'', period = js ''monthly''\<rparr>" 0]
    formatSalary_15K
  by (simp add: js_def)

text \<open>Decimal digits determine the number.\<close>

lemma digits_value_snoc: "digits_value (s @ [c]) = 10 * digits_value s + (c - 48)"
  by (simp add: digits_value_def)

lemma digits_value_digits: "digits_value (digits n) = n"
proof (induction n rule: digits.induct)
  case (1 n)
  show ?case
  proof (cases "n < 10")
    case True
    then show ?thesis by (simp add: digits.simps[of n] digits_value_def)
  next
    case False
    with 1 have "digits_value (digits (n div 10)) = n div 10" by simp
    with False show ?thesis by (simp add: digits.simps[of n] digits_value_snoc)
  qed
qed

lemma digits_inj: "digits m = digits n \<Longrightarrow> m = n"
  by (metis digits_value_digits)

lemma digits_are_digits: "c \<in> set (digits n) \<Longrightarrow> is_digit c"
proof (induction n rule: digits.induct)
  case (1 n)
  show ?case
  proof (cases "n < 10")
    case True
    with 1(2) show ?thesis by (simp add: digits.simps[of n] is_digit_def)
  next
    case False
    with 1 show ?thesis by (auto simp: digits.simps[of n] is_digit_def)
  qed
qed

lemma digits_no_hyphen: "digits n \<noteq> hyphen # s"
proof
  assume "digits n = hyphen # s"
  then have "hyphen \<in> set (digits n)" by simp
  then have "is_digit hyphen" by (rule digits_are_digits)
  then show False by (simp add: is_digit_def hyphen_def)
qed

lemma int_toString_inj: "int_toString a = int_toString b \<Longrightarrow> a = b"
proof (cases "a < 0"; cases "b < 0")
  assume "int_toString a = int_toString b" "a < 0" "b < 0"
  then have "nat (- a) = nat (- b)" by (auto simp: int_toString_def dest: digits_inj)
  with \<open>a < 0\<close> \<open>b < 0\<close> show ?thesis by simp
next
  assume "int_toString a = int_toString b" "a < 0" "\<not> b < 0"
  then show ?thesis by (metis int_toString_def digits_no_hyphen)
next
  assume "int_toString a = int_toString b" "\<not> a < 0" "b < 0"
  then show ?thesis by (metis int_toString_def digits_no_hyphen)
next
  assume "int_toString a = int_toString b" "\<not> a < 0" "\<not> b < 0"
  then have "nat a = nat b" by (auto simp: int_toString_def dest: digits_inj)
  with \<open>\<not> a < 0\<close> \<open>\<not> b < 0\<close> show ?thesis by simp
qed

lemma job_slug_inj_time: "job_slug lc ttl t1 = job_slug lc ttl t2 \<Longrightarrow> t1 = t2"
  by (simp add: job_slug_def Let_def int_toString_inj)

lemma job_post_fresh:
  "Some (job_slug lc (title d) now) \<notin> set (map slug db) \<Longrightarrow>
   job_post lc now db d =
     (Success 201 (d\<lparr>slug := Some (job_slug lc (title d) now)\<rparr>),
      db @ [d\<lparr>slug := Some (job_slug lc (title d) now)\<rparr>])"
  by (simp add: job_post_def Job_create_def job_pre_save_def Let_def)

text \<open>
  C7. The slug of a job is the normalised title (or \<open>job\<close>), a hyphen and the decimal
  digits of the creation time. Two postings with one title created at different
  milliseconds get different slugs, and both creations answer 201: the first document is
  stored, and the second is stored after it, not refused by the unique index because of
  the first. The store then holds what it held before, followed by the two documents.
\<close>

theorem job_same_title_both_created:
  assumes "t1 \<noteq> t2" and "title d1 = title d2"
    and "Some (job_slug lc (title d1) t1) \<notin> set (map slug db)"
    and "Some (job_slug lc (title d2) t2) \<notin> set (map slug db)"
  shows "\<exists>doc1 db1 doc2 db2.
           job_post lc t1 db d1 = (Success 201 doc1, db1) \<and>
           job_post lc t2 db1 d2 = (Success 201 doc2, db2) \<and>
           slug doc1 = Some (job_slug lc (title d1) t1) \<and>
           slug doc2 = Some (job_slug lc (title d2) t2) \<and>
           job_slug lc (title d1) t1 =
             (if slugify lc (title d1) = [] then js ''job'' else slugify lc (title d1))
               @ [hyphen] @ int_toString t1 \<and>
           slug doc1 \<noteq> slug doc2 \<and>
           doc1 = d1\<lparr>slug := Some (job_slug lc (title d1) t1)\<rparr> \<and>
           doc2 = d2\<lparr>slug := Some (job_slug lc (title d2) t2)\<rparr> \<and>
           db1 = db @ [doc1] \<and>
           db2 = db @ [doc1, doc2] \<and>
           doc1 \<in> set db1 \<and> doc1 \<in> set db2 \<and> doc2 \<in> set db2 \<and>
           length db2 = length db + 2"
proof -
  let ?doc1 = "d1\<lparr>slug := Some (job_slug lc (title d1) t1)\<rparr>"
  let ?doc2 = "d2\<lparr>slug := Some (job_slug lc (title d2) t2)\<rparr>"
  from assms(1,2) have ne: "job_slug lc (title d1) t1 \<noteq> job_slug lc (title d2) t2"
    using job_slug_inj_time by auto
  have 1: "job_post lc t1 db d1 = (Success 201 ?doc1, db @ [?doc1])"
    using assms(3) by (rule job_post_fresh)
  from assms(4) ne have "Some (job_slug lc (title d2) t2) \<notin> set (map slug (db @ [?doc1]))"
    by auto
  then have 2: "job_post lc t2 (db @ [?doc1]) d2 = (Success 201 ?doc2, db @ [?doc1] @ [?doc2])"
    using job_post_fresh by fastforce
  have 3: "job_slug lc (title d1) t1 =
             (if slugify lc (title d1) = [] then js ''job'' else slugify lc (title d1))
               @ [hyphen] @ int_toString t1"
    by (simp add: job_slug_def)
  from 1 2 3 ne show ?thesis by simp
qed


lemma job_slug_example:
  "job_slug ascii_toLowerCase (js ''Senior Frontend Developer'') 1700000000000
     = js ''senior-frontend-developer-1700000000000''"
  by (simp add: job_slug_def int_toString_def digits.simps slug_eval)

lemma job_slug_example_next:
  "job_slug ascii_toLowerCase (js ''Senior Frontend Developer'') 1700000000001
     = js ''senior-frontend-developer-1700000000001''"
  by (simp add: job_slug_def int_toString_def digits.simps slug_eval)

theorem job_same_title_both_created_witness:
  "job_slug ascii_toLowerCase (js ''Senior Frontend Developer'') 1700000000000
     = js ''senior-frontend-developer-1700000000000'' \<and>
   (\<exists>doc1 db1 doc2 db2.
      job_post ascii_toLowerCase 1700000000000 []
        \<lparr>title = js ''Senior Frontend Developer'', slug = None, salary = None,
         isActive = True, applicationDeadline = None\<rparr> = (Success 201 doc1, db1) \<and>
      job_post ascii_toLowerCase 1700000000001 db1
        \<lparr>title = js ''Senior Frontend Developer'', slug = None, salary = None,
         isActive = True, applicationDeadline = None\<rparr> = (Success 201 doc2, db2) \<and>
      slug doc1 = Some (js ''senior-frontend-developer-1700000000000'') \<and>
      slug doc1 \<noteq> slug doc2 \<and>
      db2 =
        [\<lparr>title = js ''Senior Frontend Developer'',
          slug = Some (js ''senior-frontend-developer-1700000000000''), salary = None,
          isActive = True, applicationDeadline = None\<rparr>,
         \<lparr>title = js ''Senior Frontend Developer'',
          slug = Some (js ''senior-frontend-developer-1700000000001''), salary = None,
          isActive = True, applicationDeadline = None\<rparr>])"
proof -
  let ?d = "\<lparr>title = js ''Senior Frontend Developer'', slug = None, salary = None,
         isActive = True, applicationDeadline = None\<rparr>"
  let ?P = "\<lambda>doc1 db1 doc2 db2.
      job_post ascii_toLowerCase 1700000000000 [] ?d = (Success 201 doc1, db1) \<and>
      job_post ascii_toLowerCase 1700000000001 db1 ?d = (Success 201 doc2, db2) \<and>
      slug doc1 = Some (js ''senior-frontend-developer-1700000000000'') \<and>
      slug doc1 \<noteq> slug doc2 \<and>
      db2 =
        [\<lparr>title = js ''Senior Frontend Developer'',
          slug = Some (js ''senior-frontend-developer-1700000000000''), salary = None,
          isActive = True, applicationDeadline = None\<rparr>,
         \<lparr>title = js ''Senior Frontend Developer'',
          slug = Some (js ''senior-frontend-developer-1700000000001''), salary = None,
          isActive = True, applicationDeadline = None\<rparr>]"
  have ne: "(1700000000000::int) \<noteq> 1700000000001" by simp
  have a3: "Some (job_slug ascii_toLowerCase (title ?d) 1700000000000) \<notin> set (map slug [])"
    and a4: "Some (job_slug ascii_toLowerCase (title ?d) 1700000000001) \<notin> set (map slug [])"
    by simp_all
  from job_same_title_both_created[OF ne refl a3 a4]
  obtain doc1 db1 doc2 db2 where
    p1: "job_post ascii_toLowerCase 1700000000000 [] ?d = (Success 201 doc1, db1)" and
    p2: "job_post ascii_toLowerCase 1700000000001 db1 ?d = (Success 201 doc2, db2)" and
    nes: "slug doc1 \<noteq> slug doc2" and
    e1: "doc1 = ?d\<lparr>slug := Some (job_slug ascii_toLowerCase (title ?d) 1700000000000)\<rparr>" and
    e2: "doc2 = ?d\<lparr>slug := Some (job_slug ascii_toLowerCase (title ?d) 1700000000001)\<rparr>" and
    d2: "db2 = [] @ [doc1, doc2]"
    by blast
  from e1 have s1: "slug doc1 = Some (js ''senior-frontend-developer-1700000000000'')"
    by (simp add: job_slug_example)
  from e1 e2 d2 have l: "db2 =
        [\<lparr>title = js ''Senior Frontend Developer'',
          slug = Some (js ''senior-frontend-developer-1700000000000''), salary = None,
          isActive = True, applicationDeadline = None\<rparr>,
         \<lparr>title = js ''Senior Frontend Developer'',
          slug = Some (js ''senior-frontend-developer-1700000000001''), salary = None,
          isActive = True, applicationDeadline = None\<rparr>]"
    by (simp add: job_slug_example job_slug_example_next)
  from p1 p2 s1 nes l have "?P doc1 db1 doc2 db2" by blast
  then have "\<exists>doc1 db1 doc2 db2. ?P doc1 db1 doc2 db2" by blast
  with job_slug_example show ?thesis by blast
qed


section \<open>Creating documents: duplicate keys\<close>

lemma blog_post_duplicate:
  assumes "blog_title d \<noteq> []" and "slugify lc (blog_title d) \<noteq> []"
    and "Some (slugify lc (blog_title d)) \<in> set (map blog_slug db)"
  shows "blog_post lc db d =
           (Failure 409 ''A blog with this title already exists. Please use a unique title.''
              (Some (''slug'', slugify lc (blog_title d))), db)"
  using assms
  by (simp add: blog_post_def Blog_create_def blog_pre_validate_def blog_create_catch_def Let_def)

lemma job_post_duplicate:
  assumes "Some (job_slug lc (title d) now) \<in> set (map slug db)"
  shows "job_post lc now db d = (Failure 400 ''A job with this title already exists'' None, db)"
  using assms
  by (simp add: job_post_def Job_create_def job_pre_save_def job_create_catch_def Let_def)

text \<open>
  C2, as the code has it. A duplicate-key error of the store (code 11000) is answered by
  the blog handler with 409, its message and the \<open>keyValue\<close> of the error, and by the job
  handler with 400 and its message, without a \<open>keyValue\<close>. On the whole path: a blog
  whose slug is already stored gets 409 naming the slug; a job whose slug is already stored
  gets 400; the store is left as it was.
\<close>

theorem duplicate_key_answers:
  "(code error = Some 11000 \<longrightarrow>
      blog_create_catch error =
        Failure 409 ''A blog with this title already exists. Please use a unique title.''
          (keyValue error)) \<and>
   (code error = Some 11000 \<longrightarrow>
      job_create_catch error = Failure 400 ''A job with this title already exists'' None) \<and>
   (blog_title b \<noteq> [] \<and> slugify lc (blog_title b) \<noteq> [] \<and>
    Some (slugify lc (blog_title b)) \<in> set (map blog_slug blogs) \<longrightarrow>
      blog_post lc blogs b =
        (Failure 409 ''A blog with this title already exists. Please use a unique title.''
           (Some (''slug'', slugify lc (blog_title b))), blogs)) \<and>
   (Some (job_slug lc (title j) now) \<in> set (map slug jobs) \<longrightarrow>
      job_post lc now jobs j = (Failure 400 ''A job with this title already exists'' None, jobs))"
  using blog_post_duplicate[of b lc blogs] job_post_duplicate[of lc j now jobs]
  by (simp add: blog_create_catch_def job_create_catch_def)

lemma slugify_hello: "slugify ascii_toLowerCase (js ''Hello, World!'') = js ''hello-world''"
  by (simp add: slug_eval)

lemma job_slug_designer:
  "job_slug ascii_toLowerCase (js ''Designer'') 1700000000000 = js ''designer-1700000000000''"
  by (simp add: job_slug_def int_toString_def digits.simps slug_eval)

theorem duplicate_key_answers_witness:
  "blog_create_catch (StoreError (Some 11000) ''MongoServerError'' (Some (''slug'', js ''hello-world'')))
     = Failure 409 ''A blog with this title already exists. Please use a unique title.''
         (Some (''slug'', js ''hello-world'')) \<and>
   job_create_catch (StoreError (Some 11000) ''MongoServerError'' (Some (''slug'', js ''hello-world'')))
     = Failure 400 ''A job with this title already exists'' None \<and>
   blog_post ascii_toLowerCase
     [\<lparr>blog_id = 1, blog_title = js ''Hello World'', blog_slug = Some (js ''hello-world''),
       author = Some 7, comments = []\<rparr>]
     \<lparr>blog_id = 2, blog_title = js ''Hello, World!'', blog_slug = None,
       author = Some 7, comments = []\<rparr>
     = (Failure 409 ''A blog with this title already exists. Please use a unique title.''
          (Some (''slug'', js ''hello-world'')),
        [\<lparr>blog_id = 1, blog_title = js ''Hello World'', blog_slug = Some (js ''hello-world''),
          author = Some 7, comments = []\<rparr>]) \<and>
   job_post ascii_toLowerCase 1700000000000
     [\<lparr>title = js ''Designer'', slug = Some (js ''designer-1700000000000''), salary = None,
       isActive = True, applicationDeadline = None\<rparr>]
     \<lparr>title = js ''Designer'', slug = None, salary = None,
       isActive = True, applicationDeadline = None\<rparr>
     = (Failure 400 ''A job with this title already exists'' None,
        [\<lparr>title = js ''Designer'', slug = Some (js ''designer-1700000000000''), salary = None,
          isActive = True, applicationDeadline = None\<rparr>])"
proof -
  have ne: "js ''Hello, World!'' \<noteq> []" "js ''hello-world'' \<noteq> []" by (simp_all add: js_def)
  from duplicate_key_answers[of
      "StoreError (Some 11000) ''MongoServerError'' (Some (''slug'', js ''hello-world''))"
      "\<lparr>blog_id = 2, blog_title = js ''Hello, World!'', blog_slug = None,
        author = Some 7, comments = []\<rparr>"
      ascii_toLowerCase
      "[\<lparr>blog_id = 1, blog_title = js ''Hello World'', blog_slug = Some (js ''hello-world''),
         author = Some 7, comments = []\<rparr>]"
      "\<lparr>title = js ''Designer'', slug = None, salary = None,
        isActive = True, applicationDeadline = None\<rparr>"
      1700000000000
      "[\<lparr>title = js ''Designer'', slug = Some (js ''designer-1700000000000''), salary = None,
         isActive = True, applicationDeadline = None\<rparr>]"] ne
  show ?thesis by (simp add: slugify_hello job_slug_designer)
qed

text \<open>
  Against C2 as stated: a second job with the title \<open>Designer\<close>, created in the millisecond
  of the first, meets the unique index on \<open>slug\<close>; the store throws the duplicate-key
  error, and the handler answers 400 without a \<open>keyValue\<close>, not 409.
\<close>

theorem job_duplicate_key_answer_is_400:
  "Job_create ascii_toLowerCase 1700000000000
     [\<lparr>title = js ''Designer'', slug = Some (js ''designer-1700000000000''), salary = None,
       isActive = True, applicationDeadline = None\<rparr>]
     \<lparr>title = js ''Designer'', slug = None, salary = None,
       isActive = True, applicationDeadline = None\<rparr>
     = Inl (StoreError (Some 11000) ''MongoServerError''
              (Some (''slug'', js ''designer-1700000000000''))) \<and>
   fst (job_post ascii_toLowerCase 1700000000000
     [\<lparr>title = js ''Designer'', slug = Some (js ''designer-1700000000000''), salary = None,
       isActive = True, applicationDeadline = None\<rparr>]
     \<lparr>title = js ''Designer'', slug = None, salary = None,
       isActive = True, applicationDeadline = None\<rparr>)
     = Failure 400 ''A job with this title already exists'' None \<and>
   status (fst (job_post ascii_toLowerCase 1700000000000
     [\<lparr>title = js ''Designer'', slug = Some (js ''designer-1700000000000''), salary = None,
       isActive = True, applicationDeadline = None\<rparr>]
     \<lparr>title = js ''Designer'', slug = None, salary = None,
       isActive = True, applicationDeadline = None\<rparr>)) \<noteq> 409 \<and>
   keyValue_of (fst (job_post ascii_toLowerCase 1700000000000
     [\<lparr>title = js ''Designer'', slug = Some (js ''designer-1700000000000''), salary = None,
       isActive = True, applicationDeadline = None\<rparr>]
     \<lparr>title = js ''Designer'', slug = None, salary = None,
       isActive = True, applicationDeadline = None\<rparr>)) = None"
  by (simp add: job_post_def Job_create_def job_pre_save_def job_create_catch_def Let_def
      job_slug_designer)

section \<open>Deleting a comment\<close>













section \<open>Authentication: mandatory and optional\<close>

text \<open>
  C8. \<open>optionalAuth\<close> always passes the request on. When the credential is missing (no
  token can be read from the header) or invalid (the verifier throws on it),
  \<open>optionalAuth\<close> passes the request on with no identity and \<open>protect\<close> answers 401, for
  one and the same header, verifier and user lookup.
\<close>

theorem missing_or_invalid_credential:
  "(\<exists>u. optionalAuth verify findById authorization = Next u) \<and>
   (credential_missing authorization \<or> credential_invalid verify authorization \<longrightarrow>
      optionalAuth verify findById authorization = Next None \<and>
      protect verify findById authorization =
        Respond 401 ''Not authorized to access this route'')"
proof
  show "\<exists>u. optionalAuth verify findById authorization = Next u"
    by (simp add: optionalAuth_def split: option.splits attempt.splits)
  show "credential_missing authorization \<or> credential_invalid verify authorization \<longrightarrow>
      optionalAuth verify findById authorization = Next None \<and>
      protect verify findById authorization =
        Respond 401 ''Not authorized to access this route''"
    by (auto simp: credential_missing_def credential_invalid_def optionalAuth_def protect_def
        split: option.splits)
qed

lemma bearer_token_examples:
  "bearer_token None = None"
  "bearer_token (Some (js ''Basic dXNlcjpwdw=='')) = None"
  "bearer_token (Some (js ''Bearer'')) = None"
  "bearer_token (Some (js ''Bearer '')) = Some []"
  "bearer_token (Some (js ''Bearer expired.jwt.token'')) = Some (js ''expired.jwt.token'')"
  by (simp_all add: bearer_token_def startsWith_def js_def)

theorem missing_or_invalid_credential_witness:
  "credential_missing None \<and>
   optionalAuth (\<lambda>t. if t = js ''good.jwt.token'' then Returns (5::nat) else Throws)
     (\<lambda>d. Returns (if d = 5 then Some \<lparr>user_id = 5, role = js ''user''\<rparr> else None)) None
     = Next None \<and>
   protect (\<lambda>t. if t = js ''good.jwt.token'' then Returns (5::nat) else Throws)
     (\<lambda>d. Returns (if d = 5 then Some \<lparr>user_id = 5, role = js ''user''\<rparr> else None)) None
     = Respond 401 ''Not authorized to access this route'' \<and>
   credential_invalid (\<lambda>t. if t = js ''good.jwt.token'' then Returns (5::nat) else Throws)
     (Some (js ''Bearer expired.jwt.token'')) \<and>
   optionalAuth (\<lambda>t. if t = js ''good.jwt.token'' then Returns (5::nat) else Throws)
     (\<lambda>d. Returns (if d = 5 then Some \<lparr>user_id = 5, role = js ''user''\<rparr> else None))
     (Some (js ''Bearer expired.jwt.token'')) = Next None \<and>
   protect (\<lambda>t. if t = js ''good.jwt.token'' then Returns (5::nat) else Throws)
     (\<lambda>d. Returns (if d = 5 then Some \<lparr>user_id = 5, role = js ''user''\<rparr> else None))
     (Some (js ''Bearer expired.jwt.token'')) = Respond 401 ''Not authorized to access this route'' \<and>
   optionalAuth (\<lambda>t. if t = js ''good.jwt.token'' then Returns (5::nat) else Throws)
     (\<lambda>d. Returns (if d = 5 then Some \<lparr>user_id = 5, role = js ''user''\<rparr> else None))
     (Some (js ''Bearer good.jwt.token'')) = Next (Some \<lparr>user_id = 5, role = js ''user''\<rparr>)"
proof -
  let ?verify = "\<lambda>t. if t = js ''good.jwt.token'' then Returns (5::nat) else Throws"
  let ?findById = "\<lambda>d::nat. Returns (if d = 5 then Some \<lparr>user_id = 5, role = js ''user''\<rparr> else None)"
  have m: "credential_missing None"
    by (simp add: credential_missing_def bearer_token_examples)
  have i: "credential_invalid ?verify (Some (js ''Bearer expired.jwt.token''))"
    by (simp add: credential_invalid_def bearer_token_examples) (simp add: js_def)
  have g: "optionalAuth ?verify ?findById (Some (js ''Bearer good.jwt.token''))
             = Next (Some \<lparr>user_id = 5, role = js ''user''\<rparr>)"
    by (simp add: optionalAuth_def bearer_token_def startsWith_def js_def)
  from missing_or_invalid_credential[of ?verify ?findById None]
       missing_or_invalid_credential[of ?verify ?findById "Some (js ''Bearer expired.jwt.token'')"]
       m i g
  show ?thesis by blast
qed


section \<open>Deleting an uploaded file\<close>

lemma str_includes_empty: "str_includes s []"
  by (induction s) (simp_all add: startsWith_def)

lemma str_includes_prefix: "str_includes (sub @ ys) sub"
proof (cases sub)
  case Nil
  then show ?thesis by (simp add: str_includes_empty)
next
  case (Cons a as)
  then show ?thesis by (simp add: startsWith_def)
qed

lemma str_includes_infix: "str_includes (xs @ sub @ ys) sub"
  by (induction xs) (simp_all add: str_includes_prefix)

lemma str_includes_member: "c \<in> set s \<Longrightarrow> str_includes s [c]"
proof -
  assume "c \<in> set s"
  then obtain xs ys where "s = xs @ [c] @ ys" by (auto simp: in_set_conv_decomp)
  then show ?thesis using str_includes_infix[of xs "[c]" ys] by simp
qed

lemma split_no_separator: "sep \<notin> set s \<Longrightarrow> split sep s = [s]"
  by (induction s) auto

lemma basename_plain: "47 \<notin> set s \<Longrightarrow> basename s = s"
  by (simp add: basename_def split_no_separator)

lemma str_includes_decomp: "str_includes s sub \<Longrightarrow> \<exists>xs ys. s = xs @ sub @ ys"
proof (induction s)
  case Nil
  then show ?case by simp
next
  case (Cons c cs)
  show ?case
  proof (cases "startsWith (c # cs) sub")
    case True
    then have "c # cs = [] @ sub @ drop (length sub) (c # cs)"
      by (metis append_Nil append_take_drop_id startsWith_def)
    then show ?thesis by blast
  next
    case False
    with Cons.prems have "str_includes cs sub" by simp
    then obtain xs ys where "cs = xs @ sub @ ys" using Cons.IH by blast
    then have "c # cs = (c # xs) @ sub @ ys" by simp
    then show ?thesis by blast
  qed
qed

lemma str_includes_iff: "str_includes s sub \<longleftrightarrow> (\<exists>xs ys. s = xs @ sub @ ys)"
  using str_includes_decomp str_includes_infix by blast

lemma str_includes_unit: "str_includes s [c] \<longleftrightarrow> c \<in> set s"
proof
  assume "str_includes s [c]"
  then obtain xs ys where "s = xs @ [c] @ ys" using str_includes_decomp by blast
  then show "c \<in> set s" by simp
qed (rule str_includes_member)

lemma separators: "js ''/'' = [47]" "js [CHR 0x5C] = [92]" "js ''..'' = [46, 46]"
  by (simp_all add: js_def)

text \<open>A name that passes both checks is handed to the file system as it is.\<close>

lemma media_delete_reaches_storage:
  assumes "raw \<noteq> []" and "list_all allowed_filename_char raw"
    and "\<not> str_includes raw (js ''..'')"
  shows "snd (snd (media_delete unlink fs raw)) = [raw]"
proof -
  from assms(2) have no: "47 \<notin> set raw" "92 \<notin> set raw"
    by (auto simp: list_all_iff allowed_filename_char_def)
  then have "\<not> str_includes raw (js ''/'')" "\<not> str_includes raw (js [CHR 0x5C])"
    by (simp_all add: separators str_includes_unit)
  with assms no(1) show ?thesis
    by (auto simp: media_delete_def basename_plain Let_def split: sum.splits errno.splits)
qed

text \<open>
  C9. A file name that contains a slash, a backslash, two dots in a row, or a code unit
  outside \<open>[A-Za-z0-9_.\- ]\<close> is answered 400; the file system is not called and is
  left as it was.
\<close>

theorem media_delete_rejects:
  assumes "47 \<in> set raw \<or> 92 \<in> set raw \<or> (\<exists>xs ys. raw = xs @ js ''..'' @ ys)
           \<or> (\<exists>c \<in> set raw. \<not> allowed_filename_char c)"
  shows "media_delete unlink fs raw = (Failure 400 ''Invalid filename'' None, fs, [])"
proof (cases "str_includes raw (js ''/'') \<or> str_includes raw (js [CHR 0x5C])
              \<or> str_includes raw (js ''..'')")
  case True
  then show ?thesis by (simp add: media_delete_def)
next
  case False
  then have "47 \<notin> set raw" "92 \<notin> set raw" "\<not> (\<exists>xs ys. raw = xs @ js ''..'' @ ys)"
    by (simp_all add: separators str_includes_unit) (simp add: str_includes_iff)
  with assms have "\<exists>c \<in> set raw. \<not> allowed_filename_char c" by blast
  then have "\<not> list_all allowed_filename_char raw" by (simp add: list_all_iff)
  with False show ?thesis by (simp add: media_delete_def)
qed

theorem media_delete_rejects_witness:
  "media_delete unlink_in_dir [js ''photo.png''] (js ''../config.env'')
     = (Failure 400 ''Invalid filename'' None, [js ''photo.png''], []) \<and>
   media_delete unlink_in_dir [js ''photo.png''] (js ''a/photo.png'')
     = (Failure 400 ''Invalid filename'' None, [js ''photo.png''], []) \<and>
   media_delete unlink_in_dir [js ''photo.png''] (js ''a'' @ [92] @ js ''photo.png'')
     = (Failure 400 ''Invalid filename'' None, [js ''photo.png''], []) \<and>
   media_delete unlink_in_dir [js ''photo.png''] (js ''photo..png'')
     = (Failure 400 ''Invalid filename'' None, [js ''photo.png''], []) \<and>
   media_delete unlink_in_dir [js ''photo.png''] (js ''photo$.png'')
     = (Failure 400 ''Invalid filename'' None, [js ''photo.png''], []) \<and>
   media_delete unlink_in_dir [js ''photo.png''] (js ''photo.png'')
     = (Success 200 ''File deleted'', [], [js ''photo.png''])"
proof -
  have 1: "47 \<in> set (js ''../config.env'')" by (simp add: js_def)
  have 2: "47 \<in> set (js ''a/photo.png'')" by (simp add: js_def)
  have 3: "92 \<in> set (js ''a'' @ [92] @ js ''photo.png'')" by simp
  have 4: "\<exists>xs ys. js ''photo..png'' = xs @ js ''..'' @ ys"
  proof (intro exI)
    show "js ''photo..png'' = js ''photo'' @ js ''..'' @ js ''png''" by (simp add: js_def)
  qed
  have 5: "\<exists>c \<in> set (js ''photo$.png''). \<not> allowed_filename_char c"
    by (simp add: js_def allowed_filename_char_def)
  have 6: "media_delete unlink_in_dir [js ''photo.png''] (js ''photo.png'')
     = (Success 200 ''File deleted'', [], [js ''photo.png''])"
    by (simp add: media_delete_def unlink_in_dir_def basename_def startsWith_def
        allowed_filename_char_def js_def)
  from media_delete_rejects[of "js ''../config.env''" unlink_in_dir "[js ''photo.png'']"]
       media_delete_rejects[of "js ''a/photo.png''" unlink_in_dir "[js ''photo.png'']"]
       media_delete_rejects[of "js ''a'' @ [92] @ js ''photo.png''" unlink_in_dir "[js ''photo.png'']"]
       media_delete_rejects[of "js ''photo..png''" unlink_in_dir "[js ''photo.png'']"]
       media_delete_rejects[of "js ''photo$.png''" unlink_in_dir "[js ''photo.png'']"]
       1 2 3 4 5 6
  show ?thesis by blast
qed

end
